theory Spec2Isabelle
  imports Complex_Main "HOL-Library.AList"
begin

section \<open>Values, objects and the store\<close>

text \<open>
  The class \<open>System\<close> of \<open>asteroid/engine/system.py\<close> handles untyped Python values.
  Immutable values are modelled by \<open>pyval\<close>; a dictionary is a mutable object with an
  identity, so it lives in a store and a value refers to it by its address (\<open>PRef\<close>).
  A scalar tensor carries a real number: tensor arithmetic is idealised, rounding is not
  modelled.
\<close>

type_synonym addr = nat

datatype pyval =
    PNone
  | PInt int
  | PStr string
  | PTensor real
  | PTuple "pyval list"
  | PRef addr

text \<open>
  A stored object is a dictionary, kept as an association list in insertion order (as
  Python's \<open>dict\<close> keeps it), or an instance of some other class, of which only the
  attributes are recorded.
\<close>

datatype pyobj =
    ODict "(string \<times> pyval) list"
  | OInstance "(string \<times> pyval) list"

type_synonym heap = "pyobj list"

datatype error =
    ValueError string
  | KeyError string
  | TypeError
  | RuntimeError
  | OtherError string

text \<open>
  A collaborator (the model's forward pass, the loss evaluator's \<open>compute\<close>) is called
  with positional arguments and keyword arguments. It may read and change the store, and
  it may raise.
\<close>

type_synonym callable =
  "pyval list \<Rightarrow> (string \<times> pyval) list \<Rightarrow> heap \<Rightarrow> (error + pyval) \<times> heap"

record module =
  module_forward :: callable

record loss_evaluator =
  compute :: callable

text \<open>The attributes that \<open>System.__init__\<close> assigns.\<close>

record system =
  model :: module
  optimizer :: pyval
  loss_class :: loss_evaluator
  train_loader :: pyval
  val_loader :: pyval
  scheduler :: pyval
  config :: pyval

text \<open>
  The state a method runs in: the attributes of \<open>self\<close> and the store. Every method
  takes the state and returns its result (or the exception raised) with the state it
  leaves behind.
\<close>

record state =
  self :: system
  heap :: heap

type_synonym 'a result = "(error + 'a) \<times> state"

definition deref :: "state \<Rightarrow> addr \<Rightarrow> pyobj option" where
  "deref s a = (if a < length (heap s) then Some (heap s ! a) else None)"

text \<open>
  \<open>dict()\<close> and a dictionary display \<open>{...}\<close> create a new object: it gets the next
  unused address of the store.
\<close>

definition new_dict :: "(string \<times> pyval) list \<Rightarrow> state \<Rightarrow> pyval \<times> state" where
  "new_dict d s = (PRef (length (heap s)), s\<lparr>heap := heap s @ [ODict d]\<rparr>)"

section \<open>Construction\<close>

text \<open>
  \<open>__init__(self, model, optimizer, loss_class, train_loader, val_loader=None,
  scheduler=None, config=None)\<close>: an argument left out is \<open>None\<close> here and takes its
  default, Python's \<open>None\<close>.
\<close>

definition default_None :: "pyval option \<Rightarrow> pyval" where
  "default_None v = (case v of None \<Rightarrow> PNone | Some x \<Rightarrow> x)"

definition init ::
  "module \<Rightarrow> pyval \<Rightarrow> loss_evaluator \<Rightarrow> pyval \<Rightarrow> pyval option \<Rightarrow> pyval option \<Rightarrow> pyval option
     \<Rightarrow> system" where
  "init model' optimizer' loss_class' train_loader' val_loader' scheduler' config' =
     \<lparr> model = model',
       optimizer = optimizer',
       loss_class = loss_class',
       train_loader = train_loader',
       val_loader = default_None val_loader',
       scheduler = default_None scheduler',
       config = default_None config' \<rparr>"

section \<open>Unpacking a batch\<close>

text \<open>\<open>'{}'.format(n)\<close> for a length \<open>n\<close>: its decimal digits.\<close>

definition digit_char :: "nat \<Rightarrow> char" where
  "digit_char d = char_of (48 + d)"

function string_of_nat :: "nat \<Rightarrow> string" where
  "string_of_nat n =
     (if n < 10 then [digit_char n]
      else string_of_nat (n div 10) @ [digit_char (n mod 10)])"
  by pat_completeness auto
termination
  by (relation "measure (\<lambda>n. n)") auto

declare string_of_nat.simps [simp del]

text \<open>
  \<open>unpack_data(self, data)\<close>. The batch \<open>data\<close> is given as the sequence of its
  elements. With two elements the third result is a new empty dictionary; with three it
  is the third element, whatever it is.
\<close>

definition unpack_data :: "pyval list \<Rightarrow> state \<Rightarrow> (pyval \<times> pyval \<times> pyval) result" where
  "unpack_data data s =
     (if length data = 2 then
        (let inputs = data ! 0;
             targets = data ! 1;
             (infos, s') = new_dict [] s
         in (Inr (inputs, targets, infos), s'))
      else if length data = 3 then
        (let inputs = data ! 0;
             targets = data ! 1;
             infos = data ! 2
         in (Inr (inputs, targets, infos), s))
      else
        (Inl (ValueError (''Expected DataLoader output to have 2 or 3 elements. Received ''
                @ string_of_nat (length data) @ '' elements'')), s))"

section \<open>The forward pass and the shared step\<close>

text \<open>
  Modelled from the spec: \<open>torch.nn.Module.__call__\<close>, which is not part of this
  repository. The spec's data model takes the model to be "a callable/forward-pass
  object": calling the module runs its forward computation on the same arguments.
  Hooks registered on a module are not modelled.
\<close>

definition module_call :: "module \<Rightarrow> callable" where
  "module_call m = module_forward m"

text \<open>Calling a collaborator from a method: only the store can change.\<close>

definition invoke :: "callable \<Rightarrow> pyval list \<Rightarrow> (string \<times> pyval) list \<Rightarrow> state \<Rightarrow> pyval result" where
  "invoke f args kwargs s = (case f args kwargs (heap s) of (r, h) \<Rightarrow> (r, s\<lparr>heap := h\<rparr>))"

text \<open>\<open>forward(self, *args, **kwargs)\<close>\<close>

definition forward :: "pyval list \<Rightarrow> (string \<times> pyval) list \<Rightarrow> state \<Rightarrow> pyval result" where
  "forward args kwargs s = invoke (module_forward (model (self s))) args kwargs s"

text \<open>\<open>common_step(self, batch, batch_nb)\<close>\<close>

definition common_step :: "pyval list \<Rightarrow> int \<Rightarrow> state \<Rightarrow> pyval result" where
  "common_step batch batch_nb s =
     (case unpack_data batch s of
        (Inl e, s1) \<Rightarrow> (Inl e, s1)
      | (Inr (inputs, targets, infos), s1) \<Rightarrow>
          (case invoke (module_call (model (self s1))) [inputs] [] s1 of
             (Inl e, s2) \<Rightarrow> (Inl e, s2)
           | (Inr est_targets, s2) \<Rightarrow>
               invoke (compute (loss_class (self s2))) [targets, est_targets]
                 [(''infos'', infos)] s2))"

section \<open>Training and validation steps\<close>

text \<open>\<open>training_step(self, batch, batch_nb)\<close>: two dictionary displays, the inner one first.\<close>

definition training_step :: "pyval list \<Rightarrow> int \<Rightarrow> state \<Rightarrow> pyval result" where
  "training_step batch batch_nb s =
     (case common_step batch batch_nb s of
        (Inl e, s1) \<Rightarrow> (Inl e, s1)
      | (Inr loss, s1) \<Rightarrow>
          (let (tensorboard_logs, s2) = new_dict [(''train_loss'', loss)] s1;
               (res, s3) = new_dict [(''loss'', loss), (''log'', tensorboard_logs)] s2
           in (Inr res, s3)))"

text \<open>\<open>validation_step(self, batch, batch_nb)\<close>\<close>

definition validation_step :: "pyval list \<Rightarrow> int \<Rightarrow> state \<Rightarrow> pyval result" where
  "validation_step batch batch_nb s =
     (case common_step batch batch_nb s of
        (Inl e, s1) \<Rightarrow> (Inl e, s1)
      | (Inr loss, s1) \<Rightarrow>
          (let (res, s2) = new_dict [(''val_loss'', loss)] s1
           in (Inr res, s2)))"

section \<open>Aggregating the validation results\<close>

text \<open>
  \<open>x[key]\<close> with a string key: the entry of a dictionary, \<open>KeyError\<close> when the key is
  missing. A value that is no dictionary is not subscriptable by a string.
\<close>

definition getitem :: "state \<Rightarrow> pyval \<Rightarrow> string \<Rightarrow> error + pyval" where
  "getitem s x k =
     (case x of
        PRef a \<Rightarrow>
          (case deref s a of
             Some (ODict d) \<Rightarrow>
               (case map_of d k of None \<Rightarrow> Inl (KeyError k) | Some v \<Rightarrow> Inr v)
           | _ \<Rightarrow> Inl TypeError)
      | _ \<Rightarrow> Inl TypeError)"

text \<open>The comprehension \<open>[x['val_loss'] for x in outputs]\<close>; the first failure ends it.\<close>

fun val_losses :: "state \<Rightarrow> pyval list \<Rightarrow> error + pyval list" where
  "val_losses s [] = Inr []"
| "val_losses s (x # xs) =
     (case getitem s x ''val_loss'' of
        Inl e \<Rightarrow> Inl e
      | Inr v \<Rightarrow> (case val_losses s xs of Inl e \<Rightarrow> Inl e | Inr vs \<Rightarrow> Inr (v # vs)))"

text \<open>
  Modelled from the spec: the tensors that \<open>torch.stack\<close> accepts. The tensor library
  is not part of this repository; each validation result exposes a \<open>'val_loss'\<close>
  scalar, so only scalar tensors are stacked and anything else in the sequence is a type
  error.
\<close>

fun tensor_values :: "pyval list \<Rightarrow> error + real list" where
  "tensor_values [] = Inr []"
| "tensor_values (PTensor r # vs) =
     (case tensor_values vs of Inl e \<Rightarrow> Inl e | Inr rs \<Rightarrow> Inr (r # rs))"
| "tensor_values (_ # vs) = Inl TypeError"

text \<open>
  Modelled from the spec: \<open>torch.stack\<close>, of the tensor library. Stacking an empty
  sequence fails ("fails if outputs is empty", "empty-sequence averaging" propagates
  from the collaborator).
\<close>

definition torch_stack :: "pyval list \<Rightarrow> error + real list" where
  "torch_stack tensors = (if tensors = [] then Inl RuntimeError else tensor_values tensors)"

text \<open>
  Modelled from the spec: \<open>Tensor.mean\<close>, of the tensor library. The reduction of the
  stacked losses is their arithmetic mean, over the reals.
\<close>

definition tensor_mean :: "real list \<Rightarrow> pyval" where
  "tensor_mean rs = PTensor (sum_list rs / real (length rs))"

text \<open>
  \<open>validation_end(self, outputs)\<close>. The dictionary \<open>tensorboard_logs\<close> is created once
  and stored under both \<open>'log'\<close> and \<open>'progress_bar'\<close>.
\<close>

definition validation_end :: "pyval list \<Rightarrow> state \<Rightarrow> pyval result" where
  "validation_end outputs s =
     (case val_losses s outputs of
        Inl e \<Rightarrow> (Inl e, s)
      | Inr losses \<Rightarrow>
          (case torch_stack losses of
             Inl e \<Rightarrow> (Inl e, s)
           | Inr stacked \<Rightarrow>
               (let avg_loss = tensor_mean stacked;
                    (tensorboard_logs, s1) = new_dict [(''val_loss'', avg_loss)] s;
                    (res, s2) = new_dict [(''val_loss'', avg_loss), (''log'', tensorboard_logs),
                                          (''progress_bar'', tensorboard_logs)] s1
                in (Inr res, s2))))"

section \<open>Accessors, checkpoint and hooks\<close>

text \<open>\<open>configure_optimizers(self)\<close>\<close>

definition configure_optimizers :: "state \<Rightarrow> pyval result" where
  "configure_optimizers s =
     (if scheduler (self s) \<noteq> PNone
      then (Inr (PTuple [optimizer (self s), scheduler (self s)]), s)
      else (Inr (optimizer (self s)), s))"

definition train_dataloader :: "state \<Rightarrow> pyval result" where
  "train_dataloader s = (Inr (train_loader (self s)), s)"

definition val_dataloader :: "state \<Rightarrow> pyval result" where
  "val_dataloader s = (Inr (val_loader (self s)), s)"

text \<open>
  \<open>x[key] = v\<close> with a string key: the dictionary is changed in place. An existing key
  keeps its position and gets the new value, a new key is appended.
\<close>

definition setitem :: "pyval \<Rightarrow> string \<Rightarrow> pyval \<Rightarrow> state \<Rightarrow> unit result" where
  "setitem x k v s =
     (case x of
        PRef a \<Rightarrow>
          (case deref s a of
             Some (ODict d) \<Rightarrow> (Inr (), s\<lparr>heap := (heap s)[a := ODict (AList.update k v d)]\<rparr>)
           | _ \<Rightarrow> (Inl TypeError, s))
      | _ \<Rightarrow> (Inl TypeError, s))"

text \<open>\<open>on_save_checkpoint(self, checkpoint)\<close>\<close>

definition on_save_checkpoint :: "pyval \<Rightarrow> state \<Rightarrow> pyval result" where
  "on_save_checkpoint checkpoint s =
     (case setitem checkpoint ''training_config'' (config (self s)) s of
        (Inl e, s1) \<Rightarrow> (Inl e, s1)
      | (Inr _, s1) \<Rightarrow> (Inr checkpoint, s1))"

text \<open>The hooks and the deprecated accessor: their body is \<open>pass\<close>, they return \<open>None\<close>.\<close>

definition on_batch_start :: "pyval \<Rightarrow> state \<Rightarrow> pyval result" where
  "on_batch_start batch s = (Inr PNone, s)"

definition on_batch_end :: "state \<Rightarrow> pyval result" where
  "on_batch_end s = (Inr PNone, s)"

definition on_epoch_start :: "state \<Rightarrow> pyval result" where
  "on_epoch_start s = (Inr PNone, s)"

definition on_epoch_end :: "state \<Rightarrow> pyval result" where
  "on_epoch_end s = (Inr PNone, s)"

definition tng_dataloader :: "state \<Rightarrow> pyval result" where
  "tng_dataloader s = (Inr PNone, s)"

section \<open>Reading results back\<close>

text \<open>
  The items of the dictionary at a reference, for stating what a returned structure
  holds.
\<close>

definition dict_items :: "state \<Rightarrow> pyval \<Rightarrow> (string \<times> pyval) list option" where
  "dict_items s x =
     (case x of
        PRef a \<Rightarrow> (case deref s a of Some (ODict d) \<Rightarrow> Some d | _ \<Rightarrow> None)
      | _ \<Rightarrow> None)"

text \<open>The number that a string of decimal digits denotes, for reading a reported length.\<close>

definition digit_val :: "char \<Rightarrow> nat" where
  "digit_val c = of_char c - 48"

definition nat_of_string :: "string \<Rightarrow> nat" where
  "nat_of_string ds = foldl (\<lambda>acc c. 10 * acc + digit_val c) 0 ds"

section \<open>A concrete system\<close>

text \<open>
  A model that doubles a scalar input, a loss evaluator that returns the squared error
  when it is called with two tensors and the keyword \<open>infos\<close>, and a system built from
  them with the defaults.
\<close>

definition double_module :: module where
  "double_module =
     \<lparr> module_forward = (\<lambda>args kwargs h.
         case args of
           [PTensor x] \<Rightarrow> (Inr (PTensor (2 * x)), h)
         | _ \<Rightarrow> (Inl TypeError, h)) \<rparr>"

definition square_loss :: loss_evaluator where
  "square_loss =
     \<lparr> compute = (\<lambda>args kwargs h.
         case (args, map fst kwargs) of
           ([PTensor t, PTensor e], [''infos'']) \<Rightarrow> (Inr (PTensor ((t - e) * (t - e))), h)
         | _ \<Rightarrow> (Inl TypeError, h)) \<rparr>"

definition plain_system :: system where
  "plain_system = init double_module (PStr ''sgd'') square_loss (PStr ''train'') None None None"

definition empty_state :: state where
  "empty_state = \<lparr> self = plain_system, heap = [] \<rparr>"

text \<open>A store that holds the auxiliary mapping \<open>{"id": 3}\<close> at address 0.\<close>

definition infos_state :: state where
  "infos_state = \<lparr> self = plain_system, heap = [ODict [(''id'', PInt 3)]] \<rparr>"

text \<open>
  A system whose configuration blob is 2 and that has a scheduler, with a checkpoint at
  address 0 that already holds an entry under \<open>'training_config'\<close>.
\<close>

definition configured_system :: system where
  "configured_system =
     init double_module (PStr ''sgd'') square_loss (PStr ''train'') None
       (Some (PStr ''plateau'')) (Some (PInt 2))"

definition checkpoint_state :: state where
  "checkpoint_state =
     \<lparr> self = configured_system,
       heap = [ODict [(''training_config'', PInt 1), (''epoch'', PInt 5)]] \<rparr>"

text \<open>The same system with a checkpoint that has no such entry yet.\<close>

definition new_checkpoint_state :: state where
  "new_checkpoint_state =
     \<lparr> self = configured_system, heap = [ODict [(''epoch'', PInt 5)]] \<rparr>"

text \<open>A store with two validation results, of losses 1 and 2.\<close>

definition validation_state :: state where
  "validation_state =
     \<lparr> self = plain_system,
       heap = [ODict [(''val_loss'', PTensor 1)], ODict [(''val_loss'', PTensor 2)]] \<rparr>"

section \<open>Properties of unpacking\<close>

lemma unpack_data_len2:
  "length batch = 2 \<Longrightarrow>
     unpack_data batch s =
       (Inr (batch ! 0, batch ! 1, PRef (length (heap s))), s\<lparr>heap := heap s @ [ODict []]\<rparr>)"
  by (simp add: unpack_data_def new_dict_def)

lemma unpack_data_len3:
  "length batch = 3 \<Longrightarrow> unpack_data batch s = (Inr (batch ! 0, batch ! 1, batch ! 2), s)"
  by (simp add: unpack_data_def)

lemma unpack_data_malformed:
  "length batch \<noteq> 2 \<Longrightarrow> length batch \<noteq> 3 \<Longrightarrow>
     unpack_data batch s =
       (Inl (ValueError (''Expected DataLoader output to have 2 or 3 elements. Received ''
              @ string_of_nat (length batch) @ '' elements'')), s)"
  by (simp add: unpack_data_def)

lemma deref_fresh: "deref s (length (heap s)) = None"
  by (simp add: deref_def)

lemma deref_append_new: "deref (s\<lparr>heap := heap s @ [obj]\<rparr>) (length (heap s)) = Some obj"
  by (simp add: deref_def)

lemma deref_append_old:
  "a \<noteq> length (heap s) \<Longrightarrow> deref (s\<lparr>heap := heap s @ [obj]\<rparr>) a = deref s a"
  by (auto simp: deref_def nth_append)

lemma dict_items_append_new:
  "dict_items (s\<lparr>heap := heap s @ [ODict d]\<rparr>) (PRef (length (heap s))) = Some d"
  by (simp add: dict_items_def deref_append_new)

text \<open>
  C2. A batch of exactly two elements is unpacked into its first element as inputs, its
  second as targets and an empty auxiliary mapping: a dictionary without entries, at a
  reference that was unused before, every other object and the fields of the system
  staying as they were. A batch of exactly three elements is unpacked into its three
  elements in order, the third being the auxiliary mapping, and the state is unchanged.
\<close>

theorem unpack_data_two_or_three:
  "(length batch = 2 \<longrightarrow>
      (\<exists>infos s'. unpack_data batch s = (Inr (batch ! 0, batch ! 1, infos), s')
         \<and> dict_items s' infos = Some []
         \<and> dict_items s infos = None
         \<and> (\<forall>x. x \<noteq> infos \<longrightarrow> dict_items s' x = dict_items s x)
         \<and> self s' = self s))
   \<and> (length batch = 3 \<longrightarrow>
      unpack_data batch s = (Inr (batch ! 0, batch ! 1, batch ! 2), s))"
proof (intro conjI impI)
  assume len: "length batch = 2"
  let ?r = "PRef (length (heap s))"
  let ?s' = "s\<lparr>heap := heap s @ [ODict []]\<rparr>"
  have "unpack_data batch s = (Inr (batch ! 0, batch ! 1, ?r), ?s')"
    using len by (rule unpack_data_len2)
  moreover have "dict_items ?s' ?r = Some []"
    by (rule dict_items_append_new)
  moreover have "dict_items s ?r = None"
    by (simp add: dict_items_def deref_fresh)
  moreover have "\<forall>x. x \<noteq> ?r \<longrightarrow> dict_items ?s' x = dict_items s x"
    by (auto simp: dict_items_def deref_append_old split: pyval.splits)
  moreover have "self ?s' = self s"
    by simp
  ultimately show "\<exists>infos s'. unpack_data batch s = (Inr (batch ! 0, batch ! 1, infos), s')
         \<and> dict_items s' infos = Some []
         \<and> dict_items s infos = None
         \<and> (\<forall>x. x \<noteq> infos \<longrightarrow> dict_items s' x = dict_items s x)
         \<and> self s' = self s"
    by blast
next
  assume "length batch = 3"
  then show "unpack_data batch s = (Inr (batch ! 0, batch ! 1, batch ! 2), s)"
    by (rule unpack_data_len3)
qed

theorem unpack_data_two_or_three_witness:
  "(\<exists>infos s'. unpack_data [PTensor 1, PTensor 2] empty_state = (Inr (PTensor 1, PTensor 2, infos), s')
      \<and> dict_items s' infos = Some []
      \<and> dict_items empty_state infos = None
      \<and> (\<forall>x. x \<noteq> infos \<longrightarrow> dict_items s' x = dict_items empty_state x)
      \<and> self s' = self empty_state)
   \<and> unpack_data [PTensor 1, PTensor 2, PRef 0] empty_state
       = (Inr (PTensor 1, PTensor 2, PRef 0), empty_state)"
  using unpack_data_two_or_three [of "[PTensor 1, PTensor 2]" empty_state]
    unpack_data_two_or_three [of "[PTensor 1, PTensor 2, PRef 0]" empty_state]
  by simp

lemma digit_val_digit_char: "d < 10 \<Longrightarrow> digit_val (digit_char d) = d"
  by (simp add: digit_val_def digit_char_def)

lemma nat_of_string_snoc: "nat_of_string (ds @ [c]) = 10 * nat_of_string ds + digit_val c"
  by (simp add: nat_of_string_def)

lemma nat_of_string_of_nat: "nat_of_string (string_of_nat n) = n"
proof (induction n rule: string_of_nat.induct)
  case (1 n)
  show ?case
  proof (cases "n < 10")
    case True
    then show ?thesis
      by (subst string_of_nat.simps) (simp add: nat_of_string_def digit_val_digit_char)
  next
    case False
    with 1 show ?thesis
      by (subst string_of_nat.simps) (simp add: nat_of_string_snoc digit_val_digit_char)
  qed
qed

lemma string_of_nat_0: "string_of_nat 0 = ''0''"
  by code_simp

lemma string_of_nat_1: "string_of_nat (Suc 0) = ''1''"
  by code_simp

lemma string_of_nat_4: "string_of_nat (Suc (Suc (Suc (Suc 0)))) = ''4''"
  by code_simp

text \<open>
  C3. Unpacking fails exactly when the length of the batch is neither 2 nor 3. The
  error is then the malformed-batch error (a \<open>ValueError\<close>) whose message gives the
  length of the batch in decimal, and reading that number back yields the length; the
  state is unchanged.
\<close>

theorem unpack_data_fails_iff:
  "((\<exists>e. fst (unpack_data batch s) = Inl e) \<longleftrightarrow> length batch \<noteq> 2 \<and> length batch \<noteq> 3)
   \<and> (length batch \<noteq> 2 \<and> length batch \<noteq> 3 \<longrightarrow>
        (\<exists>ds. unpack_data batch s =
                (Inl (ValueError (''Expected DataLoader output to have 2 or 3 elements. Received ''
                       @ ds @ '' elements'')), s)
              \<and> ds = string_of_nat (length batch)
              \<and> nat_of_string ds = length batch))"
proof (intro conjI impI)
  show "(\<exists>e. fst (unpack_data batch s) = Inl e) \<longleftrightarrow> length batch \<noteq> 2 \<and> length batch \<noteq> 3"
  proof (cases "length batch = 2 \<or> length batch = 3")
    case True
    then show ?thesis
      by (auto simp: unpack_data_len2 unpack_data_len3)
  next
    case False
    then show ?thesis
      by (simp add: unpack_data_malformed)
  qed
next
  assume "length batch \<noteq> 2 \<and> length batch \<noteq> 3"
  then show "\<exists>ds. unpack_data batch s =
                (Inl (ValueError (''Expected DataLoader output to have 2 or 3 elements. Received ''
                       @ ds @ '' elements'')), s)
              \<and> ds = string_of_nat (length batch)
              \<and> nat_of_string ds = length batch"
    by (simp add: unpack_data_malformed nat_of_string_of_nat)
qed

theorem unpack_data_fails_iff_witness:
  "unpack_data [] empty_state =
     (Inl (ValueError ''Expected DataLoader output to have 2 or 3 elements. Received 0 elements''),
      empty_state)
   \<and> unpack_data [PTensor 1] empty_state =
     (Inl (ValueError ''Expected DataLoader output to have 2 or 3 elements. Received 1 elements''),
      empty_state)
   \<and> unpack_data [PTensor 1, PTensor 2, PNone, PNone] empty_state =
     (Inl (ValueError ''Expected DataLoader output to have 2 or 3 elements. Received 4 elements''),
      empty_state)
   \<and> \<not> (\<exists>e. fst (unpack_data [PTensor 1, PTensor 2] empty_state) = Inl e)
   \<and> \<not> (\<exists>e. fst (unpack_data [PTensor 1, PTensor 2, PNone] empty_state) = Inl e)"
  using unpack_data_fails_iff [of "[]" empty_state]
    unpack_data_fails_iff [of "[PTensor 1]" empty_state]
    unpack_data_fails_iff [of "[PTensor 1, PTensor 2, PNone, PNone]" empty_state]
    unpack_data_fails_iff [of "[PTensor 1, PTensor 2]" empty_state]
    unpack_data_fails_iff [of "[PTensor 1, PTensor 2, PNone]" empty_state]
  by (simp add: string_of_nat_0 string_of_nat_1 string_of_nat_4)

text \<open>
  C10. For a batch of two elements the auxiliary mapping is a newly created empty
  dictionary: its reference was unused before the call, so it differs from the mapping
  returned by any other call that runs while the earlier mapping still exists. For a
  batch of three elements the third element is returned as it is, whatever value it is:
  nothing checks that it is a mapping.
\<close>

theorem unpack_data_infos_fresh_or_passed:
  "(length batch = 2 \<longrightarrow>
      (\<exists>r. fst (unpack_data batch s) = Inr (batch ! 0, batch ! 1, PRef r)
         \<and> deref s r = None
         \<and> deref (snd (unpack_data batch s)) r = Some (ODict [])))
   \<and> (length batch = 2 \<and> length batch' = 2
        \<and> fst (unpack_data batch s) = Inr (i, t, f)
        \<and> dict_items s' f \<noteq> None
        \<and> fst (unpack_data batch' s') = Inr (i', t', f')
      \<longrightarrow> f' \<noteq> f)
   \<and> (length batch = 3 \<longrightarrow>
        unpack_data batch s = (Inr (batch ! 0, batch ! 1, batch ! 2), s))"
proof (intro conjI impI)
  assume len: "length batch = 2"
  show "\<exists>r. fst (unpack_data batch s) = Inr (batch ! 0, batch ! 1, PRef r)
         \<and> deref s r = None
         \<and> deref (snd (unpack_data batch s)) r = Some (ODict [])"
    using len by (simp add: unpack_data_len2 deref_fresh deref_append_new)
next
  assume a: "length batch = 2 \<and> length batch' = 2
        \<and> fst (unpack_data batch s) = Inr (i, t, f)
        \<and> dict_items s' f \<noteq> None
        \<and> fst (unpack_data batch' s') = Inr (i', t', f')"
  then have "length batch' = 2" and "fst (unpack_data batch' s') = Inr (i', t', f')"
    by simp_all
  then have "f' = PRef (length (heap s'))"
    using unpack_data_len2 [of batch' s'] by simp
  then have "dict_items s' f' = None"
    by (simp add: dict_items_def deref_fresh)
  with a show "f' \<noteq> f"
    by auto
next
  assume "length batch = 3"
  then show "unpack_data batch s = (Inr (batch ! 0, batch ! 1, batch ! 2), s)"
    by (rule unpack_data_len3)
qed

theorem unpack_data_infos_fresh_or_passed_witness:
  "fst (unpack_data [PTensor 1, PTensor 2] infos_state) = Inr (PTensor 1, PTensor 2, PRef 1)
   \<and> deref infos_state 1 = None
   \<and> deref (snd (unpack_data [PTensor 1, PTensor 2] infos_state)) 1 = Some (ODict [])
   \<and> fst (unpack_data [PTensor 3, PTensor 4] (snd (unpack_data [PTensor 1, PTensor 2] infos_state)))
       = Inr (PTensor 3, PTensor 4, PRef 2)
   \<and> PRef 2 \<noteq> PRef 1
   \<and> unpack_data [PTensor 1, PTensor 2, PRef 0] infos_state
       = (Inr (PTensor 1, PTensor 2, PRef 0), infos_state)
   \<and> dict_items infos_state (PInt 7) = None
   \<and> unpack_data [PTensor 1, PTensor 2, PInt 7] infos_state
       = (Inr (PTensor 1, PTensor 2, PInt 7), infos_state)"
proof -
  let ?s1 = "snd (unpack_data [PTensor 1, PTensor 2] infos_state)"
  have call1: "fst (unpack_data [PTensor 1, PTensor 2] infos_state)
                = Inr (PTensor 1, PTensor 2, PRef 1)"
    by (simp add: unpack_data_def new_dict_def infos_state_def)
  have call2: "fst (unpack_data [PTensor 3, PTensor 4] ?s1) = Inr (PTensor 3, PTensor 4, PRef 2)"
    by (simp add: unpack_data_def new_dict_def infos_state_def)
  have alive: "dict_items ?s1 (PRef 1) \<noteq> None"
    by (simp add: unpack_data_def new_dict_def infos_state_def dict_items_def deref_def)
  have differ: "PRef 2 \<noteq> PRef 1"
    using unpack_data_infos_fresh_or_passed
      [of "[PTensor 1, PTensor 2]" infos_state "[PTensor 3, PTensor 4]"
          "PTensor 1" "PTensor 2" "PRef 1" ?s1 "PTensor 3" "PTensor 4" "PRef 2"]
      call1 call2 alive
    by simp
  have unused: "deref infos_state 1 = None
     \<and> deref ?s1 1 = Some (ODict [])"
    using unpack_data_infos_fresh_or_passed
      [of "[PTensor 1, PTensor 2]" infos_state "[]" PNone PNone PNone infos_state PNone PNone PNone]
      call1
    by simp
  have passed3: "unpack_data [PTensor 1, PTensor 2, PRef 0] infos_state
       = (Inr (PTensor 1, PTensor 2, PRef 0), infos_state)"
    using unpack_data_infos_fresh_or_passed
      [of "[PTensor 1, PTensor 2, PRef 0]" infos_state "[]" PNone PNone PNone infos_state PNone PNone PNone]
    by simp
  have anyval: "unpack_data [PTensor 1, PTensor 2, PInt 7] infos_state
       = (Inr (PTensor 1, PTensor 2, PInt 7), infos_state)"
    using unpack_data_infos_fresh_or_passed
      [of "[PTensor 1, PTensor 2, PInt 7]" infos_state "[]" PNone PNone PNone infos_state PNone PNone PNone]
    by simp
  have nodict: "dict_items infos_state (PInt 7) = None"
    by (simp add: dict_items_def)
  from call1 unused call2 differ passed3 anyval nodict show ?thesis
    by simp
qed

section \<open>Properties of the steps\<close>

lemma self_unpack_data: "self (snd (unpack_data batch s)) = self s"
  by (simp add: unpack_data_def new_dict_def)

lemma self_invoke: "self (snd (invoke f args kwargs s)) = self s"
  by (simp add: invoke_def split: prod.splits)

text \<open>
  C1. When the batch is accepted and unpacked into (inputs, targets, auxiliary mapping),
  the common step runs the model's forward computation on the inputs alone and returns
  exactly what the loss evaluator's \<open>compute\<close> returns for the positional arguments
  (targets, predicted targets) and the auxiliary mapping as the keyword argument
  \<open>infos\<close>, in the store the forward pass left. Nothing else happens to the result or
  the state. When the forward pass raises, so does the common step.
\<close>

theorem common_step_composes:
  "unpack_data batch s = (Inr (inputs, targets, infos), s1) \<longrightarrow>
     (\<forall>est h2. module_forward (model (self s)) [inputs] [] (heap s1) = (Inr est, h2) \<longrightarrow>
        common_step batch i s =
          (fst (compute (loss_class (self s)) [targets, est] [(''infos'', infos)] h2),
           s1\<lparr>heap := snd (compute (loss_class (self s)) [targets, est] [(''infos'', infos)] h2)\<rparr>))
     \<and> (\<forall>e h2. module_forward (model (self s)) [inputs] [] (heap s1) = (Inl e, h2) \<longrightarrow>
        common_step batch i s = (Inl e, s1\<lparr>heap := h2\<rparr>))"
proof (intro impI conjI allI)
  fix est h2
  assume u: "unpack_data batch s = (Inr (inputs, targets, infos), s1)"
    and m: "module_forward (model (self s)) [inputs] [] (heap s1) = (Inr est, h2)"
  from u have same: "self s1 = self s"
    using self_unpack_data [of batch s] by simp
  from m same have "invoke (module_call (model (self s1))) [inputs] [] s1 = (Inr est, s1\<lparr>heap := h2\<rparr>)"
    by (simp add: invoke_def module_call_def)
  with u same show "common_step batch i s =
          (fst (compute (loss_class (self s)) [targets, est] [(''infos'', infos)] h2),
           s1\<lparr>heap := snd (compute (loss_class (self s)) [targets, est] [(''infos'', infos)] h2)\<rparr>)"
    by (simp add: common_step_def invoke_def split: prod.splits)
next
  fix e h2
  assume u: "unpack_data batch s = (Inr (inputs, targets, infos), s1)"
    and m: "module_forward (model (self s)) [inputs] [] (heap s1) = (Inl e, h2)"
  from u have same: "self s1 = self s"
    using self_unpack_data [of batch s] by simp
  from m same have "invoke (module_call (model (self s1))) [inputs] [] s1 = (Inl e, s1\<lparr>heap := h2\<rparr>)"
    by (simp add: invoke_def module_call_def)
  with u show "common_step batch i s = (Inl e, s1\<lparr>heap := h2\<rparr>)"
    by (simp add: common_step_def)
qed

lemma plain_system_fields:
  "model plain_system = double_module" "loss_class plain_system = square_loss"
  by (simp_all add: plain_system_def init_def)

theorem common_step_composes_witness:
  "unpack_data [PTensor 3, PTensor 5] empty_state
     = (Inr (PTensor 3, PTensor 5, PRef 0), empty_state\<lparr>heap := [ODict []]\<rparr>)
   \<and> module_forward (model (self empty_state)) [PTensor 3] [] [ODict []]
       = (Inr (PTensor 6), [ODict []])
   \<and> compute (loss_class (self empty_state)) [PTensor 5, PTensor 6] [(''infos'', PRef 0)] [ODict []]
       = (Inr (PTensor 1), [ODict []])
   \<and> common_step [PTensor 3, PTensor 5] 0 empty_state
       = (Inr (PTensor 1), empty_state\<lparr>heap := [ODict []]\<rparr>)"
proof -
  have u: "unpack_data [PTensor 3, PTensor 5] empty_state
     = (Inr (PTensor 3, PTensor 5, PRef 0), empty_state\<lparr>heap := [ODict []]\<rparr>)"
    by (simp add: unpack_data_def new_dict_def empty_state_def)
  have m: "module_forward (model (self empty_state)) [PTensor 3] [] [ODict []]
       = (Inr (PTensor 6), [ODict []])"
    by (simp add: empty_state_def plain_system_fields double_module_def)
  have c: "compute (loss_class (self empty_state)) [PTensor 5, PTensor 6] [(''infos'', PRef 0)] [ODict []]
       = (Inr (PTensor 1), [ODict []])"
    by (simp add: empty_state_def plain_system_fields square_loss_def)
  have "common_step [PTensor 3, PTensor 5] 0 empty_state
       = (Inr (PTensor 1), empty_state\<lparr>heap := [ODict []]\<rparr>)"
    using common_step_composes [of "[PTensor 3, PTensor 5]" empty_state "PTensor 3" "PTensor 5"
        "PRef 0" "empty_state\<lparr>heap := [ODict []]\<rparr>" 0] u m c
    by simp
  with u m c show ?thesis
    by simp
qed

lemma dict_items_two_new:
  "dict_items (s\<lparr>heap := heap s @ [ODict d1, ODict d2]\<rparr>) (PRef (length (heap s))) = Some d1"
  "dict_items (s\<lparr>heap := heap s @ [ODict d1, ODict d2]\<rparr>) (PRef (Suc (length (heap s)))) = Some d2"
  by (simp_all add: dict_items_def deref_def nth_append)

lemma training_step_ok:
  "common_step batch i s = (Inr loss, s1) \<Longrightarrow>
     training_step batch i s =
       (Inr (PRef (Suc (length (heap s1)))),
        s1\<lparr>heap := heap s1 @ [ODict [(''train_loss'', loss)],
                               ODict [(''loss'', loss), (''log'', PRef (length (heap s1)))]]\<rparr>)"
  by (simp add: training_step_def new_dict_def)

lemma training_step_raises:
  "common_step batch i s = (Inl e, s1) \<Longrightarrow> training_step batch i s = (Inl e, s1)"
  by (simp add: training_step_def)

text \<open>
  C5. Whenever the common step returns a loss for the batch, the training step returns
  a dictionary whose \<open>'loss'\<close> entry is that loss and whose \<open>'log'\<close> entry is a
  dictionary with the single entry \<open>'train_loss'\<close>, the same loss. Beyond what the common
  step did, the training step only creates these two dictionaries: every object of the
  store the common step left, and every field of the system (the optimizer among them),
  is as the common step left it, so no backpropagation and no optimizer update happens.
  An exception raised by the common step is passed on.
\<close>

theorem training_step_result:
  "(common_step batch i s = (Inr loss, s1) \<longrightarrow>
      (\<exists>res logs s'. training_step batch i s = (Inr res, s')
         \<and> dict_items s' res = Some [(''loss'', loss), (''log'', logs)]
         \<and> dict_items s' logs = Some [(''train_loss'', loss)]
         \<and> heap s' = heap s1 @ [ODict [(''train_loss'', loss)],
                                 ODict [(''loss'', loss), (''log'', logs)]]
         \<and> self s' = self s1))
   \<and> (common_step batch i s = (Inl e, s1) \<longrightarrow> training_step batch i s = (Inl e, s1))"
proof (intro conjI impI)
  assume c: "common_step batch i s = (Inr loss, s1)"
  let ?logs = "PRef (length (heap s1))"
  let ?res = "PRef (Suc (length (heap s1)))"
  let ?s' = "s1\<lparr>heap := heap s1 @ [ODict [(''train_loss'', loss)],
                               ODict [(''loss'', loss), (''log'', ?logs)]]\<rparr>"
  have "training_step batch i s = (Inr ?res, ?s')"
    using c by (rule training_step_ok)
  moreover have "dict_items ?s' ?res = Some [(''loss'', loss), (''log'', ?logs)]"
    by (rule dict_items_two_new)
  moreover have "dict_items ?s' ?logs = Some [(''train_loss'', loss)]"
    by (rule dict_items_two_new)
  moreover have "heap ?s' = heap s1 @ [ODict [(''train_loss'', loss)],
                                 ODict [(''loss'', loss), (''log'', ?logs)]]"
    by simp
  moreover have "self ?s' = self s1"
    by simp
  ultimately show "\<exists>res logs s'. training_step batch i s = (Inr res, s')
         \<and> dict_items s' res = Some [(''loss'', loss), (''log'', logs)]
         \<and> dict_items s' logs = Some [(''train_loss'', loss)]
         \<and> heap s' = heap s1 @ [ODict [(''train_loss'', loss)],
                                 ODict [(''loss'', loss), (''log'', logs)]]
         \<and> self s' = self s1"
    by blast
next
  assume "common_step batch i s = (Inl e, s1)"
  then show "training_step batch i s = (Inl e, s1)"
    by (rule training_step_raises)
qed

lemma common_step_example:
  "common_step [PTensor 3, PTensor 5] 0 empty_state
     = (Inr (PTensor 1), empty_state\<lparr>heap := [ODict []]\<rparr>)"
  by (simp add: common_step_def unpack_data_def new_dict_def invoke_def module_call_def
      empty_state_def plain_system_fields double_module_def square_loss_def)

lemma common_step_example_raises:
  "common_step [PTensor 3] 0 empty_state
     = (Inl (ValueError ''Expected DataLoader output to have 2 or 3 elements. Received 1 elements''),
        empty_state)"
  by (simp add: common_step_def unpack_data_def string_of_nat_1)

theorem training_step_result_witness:
  "(\<exists>res logs s'. training_step [PTensor 3, PTensor 5] 0 empty_state = (Inr res, s')
      \<and> dict_items s' res = Some [(''loss'', PTensor 1), (''log'', logs)]
      \<and> dict_items s' logs = Some [(''train_loss'', PTensor 1)]
      \<and> heap s' = [ODict [], ODict [(''train_loss'', PTensor 1)],
                    ODict [(''loss'', PTensor 1), (''log'', logs)]]
      \<and> self s' = plain_system)
   \<and> training_step [PTensor 3] 0 empty_state
     = (Inl (ValueError ''Expected DataLoader output to have 2 or 3 elements. Received 1 elements''),
        empty_state)"
proof -
  let ?s1 = "empty_state\<lparr>heap := [ODict []]\<rparr>"
  have returns: "\<exists>res logs s'. training_step [PTensor 3, PTensor 5] 0 empty_state = (Inr res, s')
      \<and> dict_items s' res = Some [(''loss'', PTensor 1), (''log'', logs)]
      \<and> dict_items s' logs = Some [(''train_loss'', PTensor 1)]
      \<and> heap s' = [ODict [], ODict [(''train_loss'', PTensor 1)],
                    ODict [(''loss'', PTensor 1), (''log'', logs)]]
      \<and> self s' = plain_system"
    using training_step_result [of "[PTensor 3, PTensor 5]" 0 empty_state "PTensor 1" ?s1]
      common_step_example
    by (simp add: empty_state_def)
  have raises: "training_step [PTensor 3] 0 empty_state
     = (Inl (ValueError ''Expected DataLoader output to have 2 or 3 elements. Received 1 elements''),
        empty_state)"
    using training_step_result [of "[PTensor 3]" 0 empty_state _ empty_state
        "ValueError ''Expected DataLoader output to have 2 or 3 elements. Received 1 elements''"]
      common_step_example_raises
    by simp
  from returns raises show ?thesis
    by simp
qed

section \<open>Properties of the accessors and the checkpoint hook\<close>

text \<open>
  C6. For a system constructed with a scheduler (a value other than \<open>None\<close>),
  \<open>configure_optimizers\<close> returns the pair (optimizer, scheduler), in this order; for a
  system constructed without a scheduler it returns the stored optimizer itself, not
  wrapped in a pair. In both cases the state stays as it was.
\<close>

theorem configure_optimizers_result:
  "(sch \<noteq> PNone \<longrightarrow>
      configure_optimizers \<lparr>self = init m opt l trl vl (Some sch) cfg, heap = h\<rparr> =
        (Inr (PTuple [opt, sch]), \<lparr>self = init m opt l trl vl (Some sch) cfg, heap = h\<rparr>))
   \<and> configure_optimizers \<lparr>self = init m opt l trl vl None cfg, heap = h\<rparr> =
        (Inr opt, \<lparr>self = init m opt l trl vl None cfg, heap = h\<rparr>)"
  by (simp add: configure_optimizers_def init_def default_None_def)

theorem configure_optimizers_result_witness:
  "configure_optimizers checkpoint_state
     = (Inr (PTuple [PStr ''sgd'', PStr ''plateau'']), checkpoint_state)
   \<and> configure_optimizers empty_state = (Inr (PStr ''sgd''), empty_state)"
  using configure_optimizers_result [of "PStr ''plateau''" double_module "PStr ''sgd''" square_loss
      "PStr ''train''" None "Some (PInt 2)"
      "[ODict [(''training_config'', PInt 1), (''epoch'', PInt 5)]]"]
    configure_optimizers_result [of "PStr ''plateau''" double_module "PStr ''sgd''" square_loss
      "PStr ''train''" None None "[]"]
  by (simp add: checkpoint_state_def configured_system_def empty_state_def plain_system_def)

lemma setitem_dict:
  "deref s a = Some (ODict d) \<Longrightarrow>
     setitem (PRef a) k v s = (Inr (), s\<lparr>heap := (heap s)[a := ODict (AList.update k v d)]\<rparr>)"
  by (simp add: setitem_def)

lemma on_save_checkpoint_dict:
  "deref s a = Some (ODict d) \<Longrightarrow>
     on_save_checkpoint (PRef a) s =
       (Inr (PRef a),
        s\<lparr>heap := (heap s)[a := ODict (AList.update ''training_config'' (config (self s)) d)]\<rparr>)"
  by (simp add: on_save_checkpoint_def setitem_dict)

lemma deref_update_same:
  "deref s a = Some obj \<Longrightarrow> deref (s\<lparr>heap := (heap s)[a := obj']\<rparr>) a = Some obj'"
  by (simp add: deref_def split: if_splits)

lemma deref_update_other:
  "b \<noteq> a \<Longrightarrow> deref (s\<lparr>heap := (heap s)[a := obj']\<rparr>) b = deref s b"
  by (simp add: deref_def)

lemma dict_items_PRef:
  "dict_items s (PRef a) = Some d \<longleftrightarrow> deref s a = Some (ODict d)"
  by (simp add: dict_items_def split: option.splits pyobj.splits)

lemma update_absent: "map_of d k = None \<Longrightarrow> AList.update k v d = d @ [(k, v)]"
  by (induction d) (auto split: if_splits)

text \<open>
  C7, as the code has it. For a checkpoint that is a dictionary, \<open>on_save_checkpoint\<close>
  returns the same dictionary object; afterwards its entry under \<open>'training_config'\<close> is
  exactly the configuration blob of the system, every entry under another key is as
  before, no other object of the store and no field of the system has changed. When the
  checkpoint had no entry under that key, the new entry is added after the existing
  ones, which keep their order; when it had one, that entry is replaced.
\<close>

theorem on_save_checkpoint_sets_config:
  "dict_items s chk = Some d \<longrightarrow>
     (\<exists>s' d'. on_save_checkpoint chk s = (Inr chk, s')
        \<and> dict_items s' chk = Some d'
        \<and> map_of d' ''training_config'' = Some (config (self s))
        \<and> (\<forall>k. k \<noteq> ''training_config'' \<longrightarrow> map_of d' k = map_of d k)
        \<and> (map_of d ''training_config'' = None \<longrightarrow>
              d' = d @ [(''training_config'', config (self s))])
        \<and> (\<forall>a. PRef a \<noteq> chk \<longrightarrow> deref s' a = deref s a)
        \<and> self s' = self s)"
proof
  assume items: "dict_items s chk = Some d"
  then obtain a where chk: "chk = PRef a"
    by (cases chk) (simp_all add: dict_items_def)
  with items have obj: "deref s a = Some (ODict d)"
    by (simp add: dict_items_PRef)
  define v where "v = config (self s)"
  define d' where "d' = AList.update ''training_config'' v d"
  define s' where "s' = s\<lparr>heap := (heap s)[a := ODict d']\<rparr>"
  have c1: "on_save_checkpoint chk s = (Inr chk, s')"
    using obj chk by (simp add: on_save_checkpoint_dict s'_def d'_def v_def)
  have c2: "dict_items s' chk = Some d'"
    unfolding chk dict_items_PRef s'_def using obj by (rule deref_update_same)
  have c3: "map_of d' ''training_config'' = Some v"
    unfolding d'_def by (simp add: update_conv')
  have c4: "\<forall>k. k \<noteq> ''training_config'' \<longrightarrow> map_of d' k = map_of d k"
    unfolding d'_def by (simp add: update_conv')
  have c5: "map_of d ''training_config'' = None \<longrightarrow> d' = d @ [(''training_config'', v)]"
    unfolding d'_def by (simp add: update_absent)
  have c6: "\<forall>b. PRef b \<noteq> chk \<longrightarrow> deref s' b = deref s b"
    unfolding chk s'_def by (simp add: deref_update_other)
  have c7: "self s' = self s"
    unfolding s'_def by simp
  show "\<exists>s' d'. on_save_checkpoint chk s = (Inr chk, s')
        \<and> dict_items s' chk = Some d'
        \<and> map_of d' ''training_config'' = Some (config (self s))
        \<and> (\<forall>k. k \<noteq> ''training_config'' \<longrightarrow> map_of d' k = map_of d k)
        \<and> (map_of d ''training_config'' = None \<longrightarrow>
              d' = d @ [(''training_config'', config (self s))])
        \<and> (\<forall>a. PRef a \<noteq> chk \<longrightarrow> deref s' a = deref s a)
        \<and> self s' = self s"
    unfolding v_def [symmetric]
    using c1 c2 c3 c4 c5 c6 c7 by (intro exI [of _ s'] exI [of _ d'] conjI)
qed

lemma configured_system_config: "config configured_system = PInt 2"
  by (simp add: configured_system_def init_def default_None_def)

theorem on_save_checkpoint_sets_config_witness:
  "dict_items new_checkpoint_state (PRef 0) = Some [(''epoch'', PInt 5)]
   \<and> (\<exists>s'. on_save_checkpoint (PRef 0) new_checkpoint_state = (Inr (PRef 0), s')
         \<and> dict_items s' (PRef 0) = Some [(''epoch'', PInt 5), (''training_config'', PInt 2)]
         \<and> self s' = configured_system)
   \<and> dict_items checkpoint_state (PRef 0)
       = Some [(''training_config'', PInt 1), (''epoch'', PInt 5)]
   \<and> (\<exists>s' d'. on_save_checkpoint (PRef 0) checkpoint_state = (Inr (PRef 0), s')
         \<and> dict_items s' (PRef 0) = Some d'
         \<and> map_of d' ''training_config'' = Some (PInt 2)
         \<and> map_of d' ''epoch'' = Some (PInt 5))"
proof -
  have before_new: "dict_items new_checkpoint_state (PRef 0) = Some [(''epoch'', PInt 5)]"
    by (simp add: dict_items_def deref_def new_checkpoint_state_def)
  have before_old: "dict_items checkpoint_state (PRef 0)
       = Some [(''training_config'', PInt 1), (''epoch'', PInt 5)]"
    by (simp add: dict_items_def deref_def checkpoint_state_def)
  have cfg_new: "config (self new_checkpoint_state) = PInt 2"
    by (simp add: new_checkpoint_state_def configured_system_config)
  have cfg_old: "config (self checkpoint_state) = PInt 2"
    by (simp add: checkpoint_state_def configured_system_config)
  have self_new: "self new_checkpoint_state = configured_system"
    by (simp add: new_checkpoint_state_def)
  have added: "\<exists>s'. on_save_checkpoint (PRef 0) new_checkpoint_state = (Inr (PRef 0), s')
         \<and> dict_items s' (PRef 0) = Some [(''epoch'', PInt 5), (''training_config'', PInt 2)]
         \<and> self s' = configured_system"
    using on_save_checkpoint_sets_config
      [of new_checkpoint_state "PRef 0" "[(''epoch'', PInt 5)]"] before_new cfg_new self_new
    by auto
  have replaced: "\<exists>s' d'. on_save_checkpoint (PRef 0) checkpoint_state = (Inr (PRef 0), s')
         \<and> dict_items s' (PRef 0) = Some d'
         \<and> map_of d' ''training_config'' = Some (PInt 2)
         \<and> map_of d' ''epoch'' = Some (PInt 5)"
    using on_save_checkpoint_sets_config
      [of checkpoint_state "PRef 0" "[(''training_config'', PInt 1), (''epoch'', PInt 5)]"]
      before_old cfg_old
    by auto
  from before_new added before_old replaced show ?thesis
    by simp
qed

text \<open>
  C7, as it is stated, fails on a checkpoint that already has an entry under
  \<open>'training_config'\<close>: with the configuration blob 2 and a checkpoint holding 1 under
  that key, the checkpoint returned holds 2 there. A field that existed before has
  changed, and no field was added.
\<close>

theorem on_save_checkpoint_counterexample:
  "dict_items checkpoint_state (PRef 0)
     = Some [(''training_config'', PInt 1), (''epoch'', PInt 5)]
   \<and> fst (on_save_checkpoint (PRef 0) checkpoint_state) = Inr (PRef 0)
   \<and> dict_items (snd (on_save_checkpoint (PRef 0) checkpoint_state)) (PRef 0)
     = Some [(''training_config'', PInt 2), (''epoch'', PInt 5)]"
  by (simp add: on_save_checkpoint_def setitem_def dict_items_def deref_def
      checkpoint_state_def configured_system_config)

section \<open>Properties of the aggregation\<close>

text \<open>
  C8. For an empty sequence of validation results, stacking the (empty) list of losses
  fails, and \<open>validation_end\<close> fails with that same error: it returns no structure and
  leaves the state as it was.
\<close>

theorem validation_end_empty:
  "torch_stack [] = Inl RuntimeError \<and> validation_end [] s = (Inl RuntimeError, s)"
  by (simp add: validation_end_def torch_stack_def)

lemma getitem_dict:
  "dict_items s x = Some d \<Longrightarrow> map_of d k = Some v \<Longrightarrow> getitem s x k = Inr v"
proof -
  assume items: "dict_items s x = Some d" and entry: "map_of d k = Some v"
  from items obtain a where x: "x = PRef a"
    by (cases x) (simp_all add: dict_items_def)
  with items have "deref s a = Some (ODict d)"
    by (simp add: dict_items_PRef)
  with x entry show ?thesis
    by (simp add: getitem_def)
qed

lemma val_losses_tensors:
  "list_all2 (\<lambda>x l. \<exists>d. dict_items s x = Some d \<and> map_of d ''val_loss'' = Some (PTensor l))
     outputs ls \<Longrightarrow>
   val_losses s outputs = Inr (map PTensor ls)"
proof (induction outputs ls rule: list_all2_induct)
  case Nil
  then show ?case by simp
next
  case (Cons x outputs l ls)
  from Cons.hyps(1) obtain d where "dict_items s x = Some d"
    and "map_of d ''val_loss'' = Some (PTensor l)"
    by blast
  then have "getitem s x ''val_loss'' = Inr (PTensor l)"
    by (rule getitem_dict)
  with Cons.IH show ?case
    by simp
qed

lemma tensor_values_tensors: "tensor_values (map PTensor ls) = Inr ls"
  by (induction ls) simp_all

lemma torch_stack_tensors: "ls \<noteq> [] \<Longrightarrow> torch_stack (map PTensor ls) = Inr ls"
  by (simp add: torch_stack_def tensor_values_tensors)

lemma validation_end_ok:
  "val_losses s outputs = Inr (map PTensor ls) \<Longrightarrow> ls \<noteq> [] \<Longrightarrow>
     validation_end outputs s =
       (Inr (PRef (Suc (length (heap s)))),
        s\<lparr>heap := heap s @
            [ODict [(''val_loss'', tensor_mean ls)],
             ODict [(''val_loss'', tensor_mean ls), (''log'', PRef (length (heap s))),
                    (''progress_bar'', PRef (length (heap s)))]]\<rparr>)"
  by (simp add: validation_end_def torch_stack_tensors new_dict_def Let_def)

text \<open>
  C4. For a non-empty sequence of N validation results, each a dictionary whose
  \<open>'val_loss'\<close> entry is a scalar loss, \<open>validation_end\<close> returns a dictionary whose
  \<open>'val_loss'\<close> entry is the arithmetic mean of the losses, their sum divided by N, and
  whose entries \<open>'log'\<close> and \<open>'progress_bar'\<close> are mappings that each hold the single
  entry \<open>'val_loss'\<close> with that same mean.
\<close>

theorem validation_end_mean:
  "outputs \<noteq> [] \<and>
   list_all2 (\<lambda>x l. \<exists>d. dict_items s x = Some d \<and> map_of d ''val_loss'' = Some (PTensor l))
     outputs ls \<longrightarrow>
   (\<exists>res logs bar s'. validation_end outputs s = (Inr res, s')
      \<and> dict_items s' res =
          Some [(''val_loss'', PTensor (sum_list ls / real (length outputs))),
                (''log'', logs), (''progress_bar'', bar)]
      \<and> dict_items s' logs = Some [(''val_loss'', PTensor (sum_list ls / real (length outputs)))]
      \<and> dict_items s' bar = Some [(''val_loss'', PTensor (sum_list ls / real (length outputs)))])"
proof
  assume a: "outputs \<noteq> [] \<and>
   list_all2 (\<lambda>x l. \<exists>d. dict_items s x = Some d \<and> map_of d ''val_loss'' = Some (PTensor l))
     outputs ls"
  then have len: "length outputs = length ls"
    by (auto dest: list_all2_lengthD)
  with a have ne: "ls \<noteq> []"
    by auto
  from a have losses: "val_losses s outputs = Inr (map PTensor ls)"
    by (simp add: val_losses_tensors)
  define avg where "avg = PTensor (sum_list ls / real (length outputs))"
  have mean: "tensor_mean ls = avg"
    by (simp add: tensor_mean_def avg_def len)
  define logs where "logs = PRef (length (heap s))"
  define res where "res = PRef (Suc (length (heap s)))"
  define s' where "s' = s\<lparr>heap := heap s @
            [ODict [(''val_loss'', avg)],
             ODict [(''val_loss'', avg), (''log'', logs), (''progress_bar'', logs)]]\<rparr>"
  have r1: "validation_end outputs s = (Inr res, s')"
    using validation_end_ok [OF losses ne] by (simp add: mean res_def s'_def logs_def)
  have r2: "dict_items s' res = Some [(''val_loss'', avg), (''log'', logs), (''progress_bar'', logs)]"
    unfolding s'_def res_def by (rule dict_items_two_new)
  have r3: "dict_items s' logs = Some [(''val_loss'', avg)]"
    unfolding s'_def logs_def by (rule dict_items_two_new)
  show "\<exists>res logs bar s'. validation_end outputs s = (Inr res, s')
      \<and> dict_items s' res =
          Some [(''val_loss'', PTensor (sum_list ls / real (length outputs))),
                (''log'', logs), (''progress_bar'', bar)]
      \<and> dict_items s' logs = Some [(''val_loss'', PTensor (sum_list ls / real (length outputs)))]
      \<and> dict_items s' bar = Some [(''val_loss'', PTensor (sum_list ls / real (length outputs)))]"
    unfolding avg_def [symmetric]
    using r1 r2 r3 r3 by (intro exI [of _ res] exI [of _ logs] exI [of _ s'] conjI)
qed

theorem validation_end_mean_witness:
  "dict_items validation_state (PRef 0) = Some [(''val_loss'', PTensor 1)]
   \<and> dict_items validation_state (PRef 1) = Some [(''val_loss'', PTensor 2)]
   \<and> (\<exists>res logs bar s'. validation_end [PRef 0, PRef 1] validation_state = (Inr res, s')
      \<and> dict_items s' res = Some [(''val_loss'', PTensor (3 / 2)), (''log'', logs), (''progress_bar'', bar)]
      \<and> dict_items s' logs = Some [(''val_loss'', PTensor (3 / 2))]
      \<and> dict_items s' bar = Some [(''val_loss'', PTensor (3 / 2))])"
proof -
  have d0: "dict_items validation_state (PRef 0) = Some [(''val_loss'', PTensor 1)]"
    by (simp add: dict_items_def deref_def validation_state_def)
  have d1: "dict_items validation_state (PRef 1) = Some [(''val_loss'', PTensor 2)]"
    by (simp add: dict_items_def deref_def validation_state_def)
  have "\<exists>res logs bar s'. validation_end [PRef 0, PRef 1] validation_state = (Inr res, s')
      \<and> dict_items s' res = Some [(''val_loss'', PTensor (3 / 2)), (''log'', logs), (''progress_bar'', bar)]
      \<and> dict_items s' logs = Some [(''val_loss'', PTensor (3 / 2))]
      \<and> dict_items s' bar = Some [(''val_loss'', PTensor (3 / 2))]"
    using validation_end_mean [of "[PRef 0, PRef 1]" validation_state "[1, 2]"] d0 d1
    by simp
  with d0 d1 show ?thesis
    by simp
qed

section \<open>The fields of the system\<close>

lemma self_forward: "self (snd (forward args kwargs s)) = self s"
  by (simp add: forward_def self_invoke)

lemma self_common_step: "self (snd (common_step batch i s)) = self s"
proof (cases "unpack_data batch s")
  case (Pair r s1)
  then have s1: "self s1 = self s"
    using self_unpack_data [of batch s] by simp
  show ?thesis
  proof (cases r)
    case (Inl e)
    with Pair s1 show ?thesis
      by (simp add: common_step_def)
  next
    case (Inr triple)
    obtain inputs targets infos where triple: "triple = (inputs, targets, infos)"
      by (cases triple) auto
    obtain r2 s2 where m: "invoke (module_call (model (self s1))) [inputs] [] s1 = (r2, s2)"
      by (cases "invoke (module_call (model (self s1))) [inputs] [] s1") auto
    then have s2: "self s2 = self s1"
      using self_invoke [of "module_call (model (self s1))" "[inputs]" "[]" s1] by simp
    show ?thesis
    proof (cases r2)
      case (Inl e)
      with Pair Inr triple m s1 s2 show ?thesis
        by (simp add: common_step_def)
    next
      case (Inr est)
      with Pair \<open>r = Inr triple\<close> triple m have
        "common_step batch i s =
           invoke (compute (loss_class (self s2))) [targets, est] [(''infos'', infos)] s2"
        by (simp add: common_step_def)
      with s1 s2 show ?thesis
        by (simp add: self_invoke)
    qed
  qed
qed

lemma self_training_step: "self (snd (training_step batch i s)) = self s"
proof (cases "common_step batch i s")
  case (Pair r s1)
  then have "self s1 = self s"
    using self_common_step [of batch i s] by simp
  with Pair show ?thesis
    by (cases r) (simp_all add: training_step_def new_dict_def)
qed

lemma self_validation_step: "self (snd (validation_step batch i s)) = self s"
proof (cases "common_step batch i s")
  case (Pair r s1)
  then have "self s1 = self s"
    using self_common_step [of batch i s] by simp
  with Pair show ?thesis
    by (cases r) (simp_all add: validation_step_def new_dict_def)
qed

lemma self_validation_end: "self (snd (validation_end outputs s)) = self s"
  by (simp add: validation_end_def new_dict_def Let_def split: sum.splits)

lemma self_setitem: "self (snd (setitem x k v s)) = self s"
  by (simp add: setitem_def split: pyval.splits option.splits pyobj.splits)

lemma self_on_save_checkpoint: "self (snd (on_save_checkpoint checkpoint s)) = self s"
proof (cases "setitem checkpoint ''training_config'' (config (self s)) s")
  case (Pair r s1)
  then have "self s1 = self s"
    using self_setitem [of checkpoint "''training_config''" "config (self s)" s] by simp
  with Pair show ?thesis
    by (cases r) (simp_all add: on_save_checkpoint_def)
qed

text \<open>
  C9. Construction stores its arguments in the fields of the system (a default where an
  optional argument is left out). Every other operation leaves the fields as they are:
  the forward pass, unpacking, the common step, the training and validation steps, the
  aggregation of validation results, the choice of optimizers, the accessors of the data
  sources, the checkpoint hook and the lifecycle hooks all return a state with the same
  model, optimizer, loss evaluator, data sources, scheduler and configuration blob.
\<close>

theorem fields_unchanged:
  "self (snd (forward args kwargs s)) = self s
   \<and> self (snd (unpack_data batch s)) = self s
   \<and> self (snd (common_step batch i s)) = self s
   \<and> self (snd (training_step batch i s)) = self s
   \<and> self (snd (validation_step batch i s)) = self s
   \<and> self (snd (validation_end outputs s)) = self s
   \<and> self (snd (configure_optimizers s)) = self s
   \<and> self (snd (train_dataloader s)) = self s
   \<and> self (snd (val_dataloader s)) = self s
   \<and> self (snd (tng_dataloader s)) = self s
   \<and> self (snd (on_save_checkpoint checkpoint s)) = self s
   \<and> self (snd (on_batch_start b s)) = self s
   \<and> self (snd (on_batch_end s)) = self s
   \<and> self (snd (on_epoch_start s)) = self s
   \<and> self (snd (on_epoch_end s)) = self s
   \<and> init m opt l trl (Some vl) (Some sch) (Some cfg) =
       \<lparr>model = m, optimizer = opt, loss_class = l, train_loader = trl, val_loader = vl,
        scheduler = sch, config = cfg\<rparr>
   \<and> init m opt l trl None None None =
       \<lparr>model = m, optimizer = opt, loss_class = l, train_loader = trl, val_loader = PNone,
        scheduler = PNone, config = PNone\<rparr>"
proof -
  have accessors: "self (snd (configure_optimizers s)) = self s"
    "self (snd (train_dataloader s)) = self s"
    "self (snd (val_dataloader s)) = self s"
    "self (snd (tng_dataloader s)) = self s"
    by (simp_all add: configure_optimizers_def train_dataloader_def val_dataloader_def
        tng_dataloader_def)
  have hooks: "self (snd (on_batch_start b s)) = self s"
    "self (snd (on_batch_end s)) = self s"
    "self (snd (on_epoch_start s)) = self s"
    "self (snd (on_epoch_end s)) = self s"
    by (simp_all add: on_batch_start_def on_batch_end_def on_epoch_start_def on_epoch_end_def)
  have construct: "init m opt l trl (Some vl) (Some sch) (Some cfg) =
       \<lparr>model = m, optimizer = opt, loss_class = l, train_loader = trl, val_loader = vl,
        scheduler = sch, config = cfg\<rparr>"
    "init m opt l trl None None None =
       \<lparr>model = m, optimizer = opt, loss_class = l, train_loader = trl, val_loader = PNone,
        scheduler = PNone, config = PNone\<rparr>"
    by (simp_all add: init_def default_None_def)
  show ?thesis
    by (intro conjI self_forward self_unpack_data self_common_step self_training_step
        self_validation_step self_validation_end self_on_save_checkpoint accessors hooks
        construct)
qed

end
